theory Spec2Isabelle
  imports Complex_Main
begin

section \<open>Data model\<close>

text \<open>
  The enumerations of \<^verbatim>\<open>ac3/player/player_controller.py\<close> and
  \<^verbatim>\<open>ac3/audio_controller.py\<close>.
\<close>

datatype PlayerState = PLAYING | PAUSED | STOPPED | KILLED | UNKNOWN

datatype LoopMode = NONE | TRACK | PLAYLIST

datatype EventType =
  PLAYER_STATE_CHANGE | SONG_CHANGE | VOLUME_CHANGE | POSITION_CHANGE | CAPABILITY_CHANGE

text \<open>
  \<^verbatim>\<open>Player.state\<close> is declared \<^verbatim>\<open>Union[PlayerState, str]\<close>: a backend reports either
  an enum member or a plain string. An enum member never compares equal to a string
  (\<^verbatim>\<open>enum.Enum\<close> has no \<^verbatim>\<open>str\<close> mixin here), which the two constructors keep apart.
\<close>

datatype state_value = StateEnum PlayerState | StateStr string

text \<open>
  A call into a backend either returns a value or raises. Seconds (positions, durations,
  clock readings of \<^verbatim>\<open>time.time()\<close>) are Python floats; they are modelled as rationals,
  so rounding is not part of the model.
\<close>

datatype 'a outcome = Returns 'a | Raises

datatype command =
  CmdPlay | CmdPause | CmdStop | CmdNext | CmdPrevious
  | CmdSetVolume int | CmdMute bool | CmdSeek rat | CmdSetShuffle bool | CmdSetLoopMode LoopMode

text \<open>
  \<^verbatim>\<open>metadata.Player\<close>, as far as the engine reads it: the optional id and the state.
\<close>

record Player =
  pl_player_id :: "string option"
  pl_state :: state_value

text \<open>
  A backend is a black box behind the \<^verbatim>\<open>PlayerController\<close> interface. The record holds
  what the engine can observe of it: its id, the answers of its queries
  (\<^verbatim>\<open>get_player_info()\<close>, \<^verbatim>\<open>get_position()\<close>, the duration of
  \<^verbatim>\<open>get_current_song()\<close>, \<^verbatim>\<open>isActive()\<close>, \<^verbatim>\<open>isConnected()\<close>) and the
  outcome of each command. \<^verbatim>\<open>get_player_info()\<close>, \<^verbatim>\<open>isActive()\<close> and
  \<^verbatim>\<open>isConnected()\<close> return or raise, as the commands do; \<^verbatim>\<open>get_position()\<close> and
  \<^verbatim>\<open>get_current_song()\<close> are taken to return. \<open>current_song = None\<close> stands for no song,
  \<open>Some None\<close> for a song without duration. A backend's own state changes and the events
  it raises while it handles a command are not part of the record.
\<close>

record PlayerController =
  player_id :: string
  get_player_info :: "Player option outcome"
  position :: "rat option"
  current_song :: "rat option option"
  isActive :: "bool outcome"
  isConnected :: "bool outcome"
  respond :: "command \<Rightarrow> bool outcome"

text \<open>A call issued to a backend: the backend's id and the command with its arguments.\<close>

type_synonym backend_call = "string \<times> command"

text \<open>
  A listener is a pair of a key and a callback. \<^verbatim>\<open>add_listener\<close> is annotated with
  \<^verbatim>\<open>EventType\<close> but stores whatever key it is given; the plugins pass strings.
  A callback (a bound method) is identified by its qualified name.
\<close>

datatype listener_key = EventKey EventType | StrKey string

type_synonym callback = string

text \<open>
  The fields of \<^verbatim>\<open>AudioController.__init__\<close> (the lock, the plugin manager and the
  thread handle apart). \<^verbatim>\<open>_controllers\<close> is a Python dict, which iterates in insertion
  order: an association list with distinct keys, new keys appended at the end.
\<close>

record AudioController =
  controllers :: "(string \<times> PlayerController) list"
  active_controller_id :: "string option"
  listeners :: "(listener_key \<times> callback) set"
  auto_pause :: bool
  auto_progress :: rat
  last_known_position :: "rat option"
  last_position_update_time :: "rat option"
  current_song_duration :: "rat option"

definition AudioController_init :: AudioController where
  "AudioController_init =
     \<lparr>controllers = [], active_controller_id = None, listeners = {}, auto_pause = True,
      auto_progress = 0, last_known_position = None, last_position_update_time = None,
      current_song_duration = None\<rparr>"

section \<open>The controller registry\<close>

definition controller_ids :: "AudioController \<Rightarrow> string list" where
  "controller_ids s = map fst (controllers s)"

text \<open>\<^verbatim>\<open>dict.pop(key)\<close> for a key that is present.\<close>

definition dict_pop :: "string \<Rightarrow> (string \<times> 'v) list \<Rightarrow> (string \<times> 'v) list" where
  "dict_pop k d = filter (\<lambda>kv. fst kv \<noteq> k) d"

text \<open>
  \<^verbatim>\<open>register_controller\<close>: a duplicate id is refused; otherwise the controller is stored
  and becomes active when no controller is. (The subscription
  \<^verbatim>\<open>controller.add_state_listener(self)\<close> changes the backend, not the engine.)
\<close>

definition register_controller ::
  "PlayerController \<Rightarrow> AudioController \<Rightarrow> bool \<times> AudioController" where
  "register_controller c s =
     (let pid = player_id c in
      if pid \<in> set (controller_ids s) then (False, s)
      else
        let s1 = s\<lparr>controllers := controllers s @ [(pid, c)]\<rparr> in
        (True,
         if active_controller_id s1 = None then s1\<lparr>active_controller_id := Some pid\<rparr>
         else s1))"

text \<open>
  \<^verbatim>\<open>unregister_controller\<close>: an unknown id is refused; otherwise the entry is popped and,
  when it was the active one, \<^verbatim>\<open>next(iter(self._controllers))\<close> (the first remaining key)
  becomes active, or nothing when the dict is empty.
\<close>

definition unregister_controller :: "string \<Rightarrow> AudioController \<Rightarrow> bool \<times> AudioController" where
  "unregister_controller pid s =
     (if pid \<notin> set (controller_ids s) then (False, s)
      else
        let s1 = s\<lparr>controllers := dict_pop pid (controllers s)\<rparr> in
        (True,
         if active_controller_id s1 = Some pid then
           (case controllers s1 of
              [] \<Rightarrow> s1\<lparr>active_controller_id := None\<rparr>
            | (k, _) # _ \<Rightarrow> s1\<lparr>active_controller_id := Some k\<rparr>)
         else s1))"

text \<open>Sequences of registry calls, run from left to right.\<close>

datatype registry_call = Register PlayerController | Unregister string

fun registry_step :: "AudioController \<Rightarrow> registry_call \<Rightarrow> AudioController" where
  "registry_step s (Register c) = snd (register_controller c s)"
| "registry_step s (Unregister pid) = snd (unregister_controller pid s)"

definition run_registry :: "registry_call list \<Rightarrow> AudioController \<Rightarrow> AudioController" where
  "run_registry calls s = foldl registry_step s calls"

text \<open>
  The entries marked active are those whose key is the active id; the \<^verbatim>\<open>active_controller\<close>
  property looks the active id up with \<^verbatim>\<open>dict.get\<close>.
\<close>

definition active_entries :: "AudioController \<Rightarrow> string list" where
  "active_entries s = filter (\<lambda>k. active_controller_id s = Some k) (controller_ids s)"

definition active_controller :: "AudioController \<Rightarrow> PlayerController option" where
  "active_controller s =
     (case active_controller_id s of None \<Rightarrow> None | Some pid \<Rightarrow> map_of (controllers s) pid)"

definition active_registered :: "AudioController \<Rightarrow> bool" where
  "active_registered s =
     (case active_controller_id s of None \<Rightarrow> True | Some pid \<Rightarrow> pid \<in> set (controller_ids s))"

section \<open>Event fan-out\<close>

text \<open>
  \<^verbatim>\<open>_listeners\<close> is a set of pairs. \<^verbatim>\<open>_notify_listeners\<close> calls the callback of every
  pair whose key equals the dispatched \<^verbatim>\<open>EventType\<close> member; an exception of a callback
  is caught and logged. The result is the set of callbacks that are called (a Python set
  gives no order).
\<close>

definition add_listener :: "listener_key \<Rightarrow> callback \<Rightarrow> AudioController \<Rightarrow> AudioController" where
  "add_listener event_type cb s = s\<lparr>listeners := insert (event_type, cb) (listeners s)\<rparr>"

definition remove_listener ::
  "listener_key \<Rightarrow> callback \<Rightarrow> AudioController \<Rightarrow> AudioController" where
  "remove_listener event_type cb s = s\<lparr>listeners := listeners s - {(event_type, cb)}\<rparr>"

definition notify_listeners :: "EventType \<Rightarrow> AudioController \<Rightarrow> callback set" where
  "notify_listeners event_type s =
     snd ` Set.filter (\<lambda>l. fst l = EventKey event_type) (listeners s)"

section \<open>Command forwarding\<close>

text \<open>
  Every command reads the \<^verbatim>\<open>active_controller\<close> property and, when there is one, calls
  the backend; a backend exception is not caught here and reaches the caller
  (\<open>Raises\<close>). The third component lists the calls issued to backends. \<open>now\<close> is the
  reading of \<^verbatim>\<open>time.time()\<close>. The method \<^verbatim>\<open>next\<close> is \<open>next_track\<close> here.
\<close>

definition play :: "rat \<Rightarrow> AudioController \<Rightarrow> bool outcome \<times> AudioController \<times> backend_call list" where
  "play now s =
     (case active_controller s of
        None \<Rightarrow> (Returns False, s, [])
      | Some c \<Rightarrow>
          (case respond c CmdPlay of
             Raises \<Rightarrow> (Raises, s, [(player_id c, CmdPlay)])
           | Returns result \<Rightarrow>
               (Returns result,
                (if result then
                   (case position c of
                      None \<Rightarrow> s
                    | Some pos \<Rightarrow>
                        s\<lparr>last_known_position := Some pos, last_position_update_time := Some now\<rparr>)
                 else s),
                [(player_id c, CmdPlay)])))"

definition pause :: "AudioController \<Rightarrow> bool outcome \<times> AudioController \<times> backend_call list" where
  "pause s =
     (case active_controller s of
        None \<Rightarrow> (Returns False, s, [])
      | Some c \<Rightarrow>
          (case respond c CmdPause of
             Raises \<Rightarrow> (Raises, s, [(player_id c, CmdPause)])
           | Returns result \<Rightarrow>
               (Returns result,
                (if result then s\<lparr>last_position_update_time := None\<rparr> else s),
                [(player_id c, CmdPause)])))"

definition stop :: "AudioController \<Rightarrow> bool outcome \<times> AudioController \<times> backend_call list" where
  "stop s =
     (case active_controller s of
        None \<Rightarrow> (Returns False, s, [])
      | Some c \<Rightarrow>
          (case respond c CmdStop of
             Raises \<Rightarrow> (Raises, s, [(player_id c, CmdStop)])
           | Returns result \<Rightarrow>
               (Returns result,
                (if result then
                   s\<lparr>last_position_update_time := None, last_known_position := Some 0\<rparr>
                 else s),
                [(player_id c, CmdStop)])))"

definition next_track :: "AudioController \<Rightarrow> bool outcome \<times> AudioController \<times> backend_call list" where
  "next_track s =
     (case active_controller s of
        None \<Rightarrow> (Returns False, s, [])
      | Some c \<Rightarrow> (respond c CmdNext, s, [(player_id c, CmdNext)]))"

definition previous :: "AudioController \<Rightarrow> bool outcome \<times> AudioController \<times> backend_call list" where
  "previous s =
     (case active_controller s of
        None \<Rightarrow> (Returns False, s, [])
      | Some c \<Rightarrow> (respond c CmdPrevious, s, [(player_id c, CmdPrevious)]))"

definition set_volume ::
  "int \<Rightarrow> AudioController \<Rightarrow> bool outcome \<times> AudioController \<times> backend_call list" where
  "set_volume volume s =
     (case active_controller s of
        None \<Rightarrow> (Returns False, s, [])
      | Some c \<Rightarrow> (respond c (CmdSetVolume volume), s, [(player_id c, CmdSetVolume volume)]))"

definition mute ::
  "bool \<Rightarrow> AudioController \<Rightarrow> bool outcome \<times> AudioController \<times> backend_call list" where
  "mute m s =
     (case active_controller s of
        None \<Rightarrow> (Returns False, s, [])
      | Some c \<Rightarrow> (respond c (CmdMute m), s, [(player_id c, CmdMute m)]))"

definition seek ::
  "rat \<Rightarrow> rat \<Rightarrow> AudioController \<Rightarrow> bool outcome \<times> AudioController \<times> backend_call list" where
  "seek pos now s =
     (case active_controller s of
        None \<Rightarrow> (Returns False, s, [])
      | Some c \<Rightarrow>
          (case respond c (CmdSeek pos) of
             Raises \<Rightarrow> (Raises, s, [(player_id c, CmdSeek pos)])
           | Returns result \<Rightarrow>
               (Returns result,
                (if result then
                   s\<lparr>last_known_position := Some pos, last_position_update_time := Some now\<rparr>
                 else s),
                [(player_id c, CmdSeek pos)])))"

definition set_shuffle ::
  "bool \<Rightarrow> AudioController \<Rightarrow> bool outcome \<times> AudioController \<times> backend_call list" where
  "set_shuffle enabled_arg s =
     (case active_controller s of
        None \<Rightarrow> (Returns False, s, [])
      | Some c \<Rightarrow>
          (respond c (CmdSetShuffle enabled_arg), s, [(player_id c, CmdSetShuffle enabled_arg)]))"

definition set_loop_mode ::
  "LoopMode \<Rightarrow> AudioController \<Rightarrow> bool outcome \<times> AudioController \<times> backend_call list" where
  "set_loop_mode mode s =
     (case active_controller s of
        None \<Rightarrow> (Returns False, s, [])
      | Some c \<Rightarrow> (respond c (CmdSetLoopMode mode), s, [(player_id c, CmdSetLoopMode mode)]))"

section \<open>Active-controller selection\<close>

text \<open>
  \<^verbatim>\<open>set_active_controller\<close>: refused for an unregistered id, nothing to do for the active
  one; otherwise the id becomes active and the extrapolation state is taken from the new
  controller's position and song.
\<close>

definition set_active_controller ::
  "rat \<Rightarrow> string \<Rightarrow> AudioController \<Rightarrow> bool \<times> AudioController" where
  "set_active_controller now pid s =
     (case map_of (controllers s) pid of
        None \<Rightarrow> (False, s)
      | Some c \<Rightarrow>
          if active_controller_id s = Some pid then (True, s)
          else
            (True,
             s\<lparr>active_controller_id := Some pid,
               last_known_position := position c,
               last_position_update_time := (if position c \<noteq> None then Some now else None),
               current_song_duration := (case current_song c of None \<Rightarrow> None | Some d \<Rightarrow> d)\<rparr>))"

text \<open>
  The two loops of \<^verbatim>\<open>auto_select_active_controller\<close> have the same shape: walk the dict
  in order and return at the first controller whose probe answers true. Neither loop has
  a \<^verbatim>\<open>try\<close>: a probe that raises ends the walk and the exception leaves
  \<^verbatim>\<open>auto_select_active_controller\<close>, with the engine as it was.
\<close>

fun first_controller_where ::
  "(PlayerController \<Rightarrow> bool outcome) \<Rightarrow> (string \<times> PlayerController) list
     \<Rightarrow> string option outcome" where
  "first_controller_where probe [] = Returns None"
| "first_controller_where probe ((pid, c) # rest) =
     (case probe c of
        Raises \<Rightarrow> Raises
      | Returns answer \<Rightarrow>
          if answer then Returns (Some pid) else first_controller_where probe rest)"

definition auto_select_active_controller ::
  "AudioController \<Rightarrow> bool outcome \<times> AudioController" where
  "auto_select_active_controller s =
     (case first_controller_where isActive (controllers s) of
        Raises \<Rightarrow> (Raises, s)
      | Returns (Some pid) \<Rightarrow> (Returns True, s\<lparr>active_controller_id := Some pid\<rparr>)
      | Returns None \<Rightarrow>
          (case first_controller_where isConnected (controllers s) of
             Raises \<Rightarrow> (Raises, s)
           | Returns (Some pid) \<Rightarrow> (Returns True, s\<lparr>active_controller_id := Some pid\<rparr>)
           | Returns None \<Rightarrow> (Returns False, s)))"

section \<open>Position extrapolation\<close>

text \<open>
  \<^verbatim>\<open>player_info and player_info.state == PlayerState.PLAYING\<close>, on the value that
  \<^verbatim>\<open>get_player_info()\<close> returned; \<open>reports_playing\<close> says that the backend's
  \<^verbatim>\<open>get_player_info()\<close> returns and that the test holds of what it returns.
\<close>

definition info_playing :: "Player option \<Rightarrow> bool" where
  "info_playing player_info =
     (case player_info of None \<Rightarrow> False | Some info \<Rightarrow> pl_state info = StateEnum PLAYING)"

definition reports_playing :: "PlayerController \<Rightarrow> bool" where
  "reports_playing c =
     (case get_player_info c of Raises \<Rightarrow> False | Returns player_info \<Rightarrow> info_playing player_info)"

text \<open>The clamp of an extrapolated position to the song duration, when that is known.\<close>

definition clamp_to_duration :: "rat option \<Rightarrow> rat \<Rightarrow> rat" where
  "clamp_to_duration duration pos =
     (case duration of None \<Rightarrow> pos | Some d \<Rightarrow> if pos \<ge> d then d else pos)"

text \<open>
  \<^verbatim>\<open>get_position\<close>: the extrapolated position when auto progress is on, a position and
  an update time are stored and the active backend reports PLAYING; the backend's own
  position otherwise. The call of \<^verbatim>\<open>get_player_info()\<close> is not guarded: when it raises,
  \<^verbatim>\<open>get_position\<close> raises.
\<close>

definition get_position :: "rat \<Rightarrow> AudioController \<Rightarrow> rat option outcome" where
  "get_position now s =
     (let fallback = (case active_controller s of None \<Rightarrow> None | Some c \<Rightarrow> position c) in
      case (last_known_position s, last_position_update_time s) of
        (Some lkp, Some t0) \<Rightarrow>
          if auto_progress s > 0 then
            (case active_controller s of
               None \<Rightarrow> Returns fallback
             | Some c \<Rightarrow>
                 (case get_player_info c of
                    Raises \<Rightarrow> Raises
                  | Returns player_info \<Rightarrow>
                      if info_playing player_info then
                        Returns (Some (clamp_to_duration (current_song_duration s)
                                         (lkp + (now - t0))))
                      else Returns fallback))
          else Returns fallback
      | _ \<Rightarrow> Returns fallback)"

text \<open>
  One iteration of the loop of \<^verbatim>\<open>_auto_progress_worker\<close>, after its sleep. \<open>is_playing\<close>
  is the worker's local flag; the result is the new flag, the new state and the position
  sent to the \<^verbatim>\<open>POSITION_CHANGE\<close> listeners, if any. The clock readings of one
  iteration are taken to be the same reading \<open>now\<close>. The loop body is inside
  \<^verbatim>\<open>try ... except Exception\<close>, which resets the flag: a \<^verbatim>\<open>get_player_info()\<close> that
  raises ends the iteration with the flag off and the state untouched.
\<close>

definition auto_progress_worker_step ::
  "rat \<Rightarrow> bool \<Rightarrow> AudioController \<Rightarrow> bool \<times> AudioController \<times> rat option" where
  "auto_progress_worker_step now is_playing s =
     (if auto_progress s \<le> 0 then (False, s, None)
      else
        case active_controller s of
          None \<Rightarrow> (False, s, None)
        | Some c \<Rightarrow>
            if \<not> is_playing \<and> get_player_info c = Raises then (False, s, None)
            else if \<not> is_playing \<and> \<not> reports_playing c then (is_playing, s, None)
            else
              let s1 =
                (if \<not> is_playing \<and> last_known_position s = None then
                   s\<lparr>last_known_position := Some (case position c of None \<Rightarrow> 0 | Some pos \<Rightarrow> pos),
                     last_position_update_time := Some now\<rparr>
                 else s)
              in
              case (last_known_position s1, last_position_update_time s1) of
                (Some lkp, Some t0) \<Rightarrow>
                  let elapsed = now - t0 in
                  if elapsed \<ge> auto_progress s1 then
                    let new_position = lkp + elapsed;
                        at_end = (case current_song_duration s1 of
                                    None \<Rightarrow> False | Some d \<Rightarrow> new_position \<ge> d);
                        new_position = clamp_to_duration (current_song_duration s1) new_position
                    in
                    (\<not> at_end,
                     s1\<lparr>last_known_position := Some new_position,
                        last_position_update_time := Some now\<rparr>,
                     Some new_position)
                  else (True, s1, None)
              | _ \<Rightarrow> (True, s1, None))"

section \<open>Backend events\<close>

text \<open>
  \<^verbatim>\<open>pause_other_controllers\<close>: the loop over the dict calls \<^verbatim>\<open>pause()\<close> on every
  controller whose key is not the active id. The return value is dropped; an exception is
  caught and logged, and the loop goes on. The result is the list of calls issued.
\<close>

fun pause_others_loop ::
  "string option \<Rightarrow> (string \<times> PlayerController) list \<Rightarrow> backend_call list" where
  "pause_others_loop active [] = []"
| "pause_others_loop active ((pid, c) # rest) =
     (if Some pid \<noteq> active then
        (case respond c CmdPause of
           Returns _ \<Rightarrow> (pid, CmdPause) # pause_others_loop active rest
         | Raises \<Rightarrow> (pid, CmdPause) # pause_others_loop active rest)
      else pause_others_loop active rest)"

definition pause_other_controllers :: "AudioController \<Rightarrow> backend_call list" where
  "pause_other_controllers s = pause_others_loop (active_controller_id s) (controllers s)"

text \<open>
  \<^verbatim>\<open>on_player_state_change\<close>. The result is the new state, the calls issued to backends,
  the callbacks notified, and whether the handler returned or raised: its call of
  \<^verbatim>\<open>get_position\<close> is not guarded, and what was changed before the exception stays
  changed.
\<close>

definition on_player_state_change ::
  "rat \<Rightarrow> Player \<Rightarrow> AudioController
     \<Rightarrow> AudioController \<times> backend_call list \<times> callback set \<times> unit outcome" where
  "on_player_state_change now player s =
     (let promote = (pl_state player = StateEnum PLAYING
                     \<and> pl_player_id player \<noteq> active_controller_id s);
          s1 = (if promote then s\<lparr>active_controller_id := pl_player_id player\<rparr> else s);
          calls = (if promote \<and> auto_pause s1 then pause_other_controllers s1 else [])
      in
      if pl_player_id player = active_controller_id s1
         \<or> (pl_state player = StateEnum PLAYING \<and> active_controller_id s1 = None) then
        let s2 =
              (if pl_state player = StateEnum PLAYING \<and> active_controller_id s1 = None then
                 (case pl_player_id player of
                    None \<Rightarrow> s1
                  | Some pid \<Rightarrow> snd (set_active_controller now pid s1))
               else s1)
        in
        if pl_state player = StateEnum PLAYING then
          (case get_position now s2 of
             Raises \<Rightarrow> (s2, calls, {}, Raises)
           | Returns None \<Rightarrow>
               (s2, calls, notify_listeners PLAYER_STATE_CHANGE s2, Returns ())
           | Returns (Some current_pos) \<Rightarrow>
               let s3 = s2\<lparr>last_known_position := Some current_pos,
                           last_position_update_time := Some now\<rparr>
               in (s3, calls, notify_listeners PLAYER_STATE_CHANGE s3, Returns ()))
        else
          let s3 = s2\<lparr>last_position_update_time := None\<rparr>
          in (s3, calls, notify_listeners PLAYER_STATE_CHANGE s3, Returns ())
      else (s1, calls, {}, Returns ()))"

text \<open>
  \<^verbatim>\<open>on_song_change\<close> (the argument is the song's duration, \<open>None\<close> for no song) and
  \<^verbatim>\<open>on_position_change\<close>: both act only while some controller is active.
\<close>

definition on_song_change ::
  "rat \<Rightarrow> rat option option \<Rightarrow> AudioController \<Rightarrow> AudioController \<times> callback set" where
  "on_song_change now song s =
     (if active_controller_id s \<noteq> None then
        let s1 = s\<lparr>current_song_duration := (case song of None \<Rightarrow> None | Some d \<Rightarrow> d),
                   last_known_position := Some 0,
                   last_position_update_time := Some now\<rparr>
        in (s1, notify_listeners SONG_CHANGE s1)
      else (s, {}))"

definition on_position_change ::
  "rat \<Rightarrow> rat option \<Rightarrow> AudioController \<Rightarrow> AudioController \<times> callback set" where
  "on_position_change now pos s =
     (if active_controller_id s \<noteq> None then
        let s1 = s\<lparr>last_known_position := pos, last_position_update_time := Some now\<rparr>
        in (s1, notify_listeners POSITION_CHANGE s1)
      else (s, {}))"

text \<open>\<^verbatim>\<open>set_auto_progress\<close>: \<^verbatim>\<open>max(0.0, float(interval))\<close>.\<close>

definition set_auto_progress :: "rat \<Rightarrow> AudioController \<Rightarrow> AudioController" where
  "set_auto_progress interval s = s\<lparr>auto_progress := max 0 interval\<rparr>"

section \<open>The MPD backend's volume command\<close>

text \<open>
  \<^verbatim>\<open>MPDPlayerController.set_volume\<close> of \<^verbatim>\<open>ac3/player/mpd.py\<close>. \<open>mpd_connected\<close> is the
  answer of \<^verbatim>\<open>_ensure_connected()\<close>, \<open>mpd_setvol_fails\<close> says whether the client's
  \<^verbatim>\<open>setvol\<close> raises. The result is the return value, the new backend state, the volumes
  sent to the daemon with \<^verbatim>\<open>setvol\<close> and the volumes announced to listeners.
\<close>

record MPDPlayerController =
  mpd_connected :: bool
  mpd_setvol_fails :: bool
  mpd_is_muted :: bool

definition MPD_set_volume ::
  "int \<Rightarrow> MPDPlayerController \<Rightarrow> bool \<times> MPDPlayerController \<times> int list \<times> int list" where
  "MPD_set_volume volume m =
     (if \<not> mpd_connected m then (False, m, [], [])
      else
        let volume = max 0 (min 100 volume) in
        if mpd_setvol_fails m then (False, m, [volume], [])
        else
          (True, (if volume > 0 then m\<lparr>mpd_is_muted := False\<rparr> else m), [volume], [volume]))"

section \<open>Plugins\<close>

text \<open>
  \<^verbatim>\<open>Plugin.enable\<close> and \<^verbatim>\<open>Plugin.disable\<close> of \<^verbatim>\<open>ac3/addons/plugin.py\<close>. The hooks
  \<^verbatim>\<open>_enable_plugin\<close> and \<^verbatim>\<open>_disable_plugin\<close> are abstract; a hook acts on whatever it can
  reach (the world \<open>'w\<close>: for the two plugins below, the engine the plugin is bound to)
  and returns a boolean or raises. An exception leaves \<^verbatim>\<open>_enabled\<close> as it was.
\<close>

record Plugin =
  plugin_name :: string
  enabled :: bool

type_synonym 'w hook = "'w \<Rightarrow> bool outcome \<times> 'w"

definition enable :: "'w hook \<Rightarrow> Plugin \<Rightarrow> 'w \<Rightarrow> bool \<times> Plugin \<times> 'w" where
  "enable enable_plugin p w =
     (if enabled p then (True, p, w)
      else
        case enable_plugin w of
          (Returns r, w') \<Rightarrow> (r, p\<lparr>enabled := r\<rparr>, w')
        | (Raises, w') \<Rightarrow> (False, p, w'))"

definition disable :: "'w hook \<Rightarrow> Plugin \<Rightarrow> 'w \<Rightarrow> bool \<times> Plugin \<times> 'w" where
  "disable disable_plugin p w =
     (if \<not> enabled p then (True, p, w)
      else
        case disable_plugin w of
          (Returns r, w') \<Rightarrow> (\<not> \<not> r, p\<lparr>enabled := \<not> r\<rparr>, w')
        | (Raises, w') \<Rightarrow> (False, p, w'))"

text \<open>
  The hooks of \<^verbatim>\<open>AutoPausePlugin\<close> and \<^verbatim>\<open>VolumeNormalizationPlugin\<close>. The world is the
  plugin's \<^verbatim>\<open>_audio_controller\<close> reference, \<open>None\<close> when it was never set. Both pass a
  plain string as the listener key.
\<close>

definition AutoPause_callback :: callback where
  "AutoPause_callback = ''AutoPausePlugin._on_player_state_change''"

definition VolumeNormalization_callback :: callback where
  "VolumeNormalization_callback = ''VolumeNormalizationPlugin._on_song_change''"

definition AutoPause_enable_plugin :: "AudioController option hook" where
  "AutoPause_enable_plugin ac =
     (case ac of
        None \<Rightarrow> (Returns False, None)
      | Some s \<Rightarrow>
          (Returns True,
           Some (add_listener (StrKey ''player_state_change'') AutoPause_callback s)))"

definition AutoPause_disable_plugin :: "AudioController option hook" where
  "AutoPause_disable_plugin ac =
     (case ac of
        None \<Rightarrow> (Returns True, None)
      | Some s \<Rightarrow>
          (Returns True,
           Some (remove_listener (StrKey ''player_state_change'') AutoPause_callback s)))"

definition VolumeNormalization_enable_plugin :: "AudioController option hook" where
  "VolumeNormalization_enable_plugin ac =
     (case ac of
        None \<Rightarrow> (Returns False, None)
      | Some s \<Rightarrow>
          (Returns True,
           Some (add_listener (StrKey ''song_change'') VolumeNormalization_callback s)))"

definition VolumeNormalization_disable_plugin :: "AudioController option hook" where
  "VolumeNormalization_disable_plugin ac =
     (case ac of
        None \<Rightarrow> (Returns True, None)
      | Some s \<Rightarrow>
          (Returns True,
           Some (remove_listener (StrKey ''song_change'') VolumeNormalization_callback s)))"

text \<open>A hook that counts its invocations and succeeds, for concrete runs.\<close>

definition counting_hook :: "nat hook" where
  "counting_hook n = (Returns True, Suc n)"

section \<open>Notions used to state the properties\<close>

text \<open>The volume arguments among the calls issued to backends.\<close>

fun forwarded_volumes :: "backend_call list \<Rightarrow> int list" where
  "forwarded_volumes [] = []"
| "forwarded_volumes ((_, CmdSetVolume v) # rest) = v # forwarded_volumes rest"
| "forwarded_volumes (_ # rest) = forwarded_volumes rest"

text \<open>
  In the words of the specification, not of the code: the registered controllers other
  than \<open>pid\<close> whose state is PLAYING, in registration order. The engine keeps no record
  of a controller's last state; the state is the one the backend reports when asked.
\<close>

definition other_playing_controllers :: "string \<Rightarrow> AudioController \<Rightarrow> string list" where
  "other_playing_controllers pid s =
     map fst (filter (\<lambda>kc. fst kc \<noteq> pid \<and> reports_playing (snd kc)) (controllers s))"

text \<open>
  The stored position does not exceed the stored song duration, when both are known.
\<close>

definition position_within_duration :: "AudioController \<Rightarrow> bool" where
  "position_within_duration s =
     (case (last_known_position s, current_song_duration s) of
        (Some pos, Some d) \<Rightarrow> pos \<le> d
      | _ \<Rightarrow> True)"

text \<open>
  What a client sees of the position over time: \<^verbatim>\<open>get_position\<close> calls and iterations
  of the worker, each with the clock reading at which it happens. The lock makes each of
  them atomic, so a run is a sequence. \<open>observe\<close> collects the positions returned by
  \<^verbatim>\<open>get_position\<close> and those the worker sends to the \<^verbatim>\<open>POSITION_CHANGE\<close> listeners, in
  order; the worker's flag and the state are threaded through. A \<^verbatim>\<open>get_position\<close> that
  raises or returns \<^verbatim>\<open>None\<close> shows no position.
\<close>

datatype observation = GetPosition | WorkerStep

fun observe :: "(rat \<times> observation) list \<Rightarrow> bool \<Rightarrow> AudioController \<Rightarrow> rat list" where
  "observe [] is_playing s = []"
| "observe ((now, GetPosition) # rest) is_playing s =
     (case get_position now s of
        Returns (Some pos) \<Rightarrow> pos # observe rest is_playing s
      | _ \<Rightarrow> observe rest is_playing s)"
| "observe ((now, WorkerStep) # rest) is_playing s =
     (case auto_progress_worker_step now is_playing s of
        (is_playing', s', emitted) \<Rightarrow>
          (case emitted of None \<Rightarrow> [] | Some pos \<Rightarrow> [pos]) @ observe rest is_playing' s')"

text \<open>
  The position extrapolated from a stored position \<open>lkp\<close> at time \<open>t0\<close> to the reading
  \<open>now\<close>, clamped to the duration: the value both \<^verbatim>\<open>get_position\<close> and the worker compute.
\<close>

definition extrapolate :: "rat option \<Rightarrow> rat \<Rightarrow> rat \<Rightarrow> rat \<Rightarrow> rat" where
  "extrapolate duration lkp t0 now = clamp_to_duration duration (lkp + (now - t0))"

text \<open>
  Concrete backends. \<^verbatim>\<open>NullPlayerController\<close> is the one of \<^verbatim>\<open>ac3/player/null.py\<close>.
  Its \<^verbatim>\<open>get_player_info()\<close> builds \<^verbatim>\<open>Player(..., supports_seek=False)\<close>, and the
  dataclass \<^verbatim>\<open>metadata.Player\<close> has no field \<^verbatim>\<open>supports_seek\<close>: the constructor raises
  \<^verbatim>\<open>TypeError\<close>. So \<^verbatim>\<open>get_player_info()\<close> raises, and with it the inherited
  \<^verbatim>\<open>isActive()\<close> and the commands \<^verbatim>\<open>play\<close>, \<^verbatim>\<open>pause\<close> and \<^verbatim>\<open>stop\<close>, which call it;
  \<^verbatim>\<open>isConnected()\<close> and the other commands return \<^verbatim>\<open>False\<close>, and there is no position
  and no song. \<open>responsive_controller\<close> is a backend in a given state that is
  connected, is at 50 seconds of a song of 200 seconds and accepts every command.
  \<open>faulty_controller\<close> is a playing backend whose every command raises.
\<close>

definition NullPlayerController :: "string \<Rightarrow> PlayerController" where
  "NullPlayerController pid =
     \<lparr>player_id = pid,
      get_player_info = Raises,
      position = None,
      current_song = None, isActive = Raises, isConnected = Returns False,
      respond = (\<lambda>cmd. case cmd of
                   CmdPlay \<Rightarrow> Raises
                 | CmdPause \<Rightarrow> Raises
                 | CmdStop \<Rightarrow> Raises
                 | _ \<Rightarrow> Returns False)\<rparr>"

definition faulty_controller :: "string \<Rightarrow> PlayerController" where
  "faulty_controller pid =
     \<lparr>player_id = pid,
      get_player_info = Returns (Some \<lparr>pl_player_id = Some pid, pl_state = StateEnum PLAYING\<rparr>),
      position = None, current_song = None, isActive = Returns True,
      isConnected = Returns True,
      respond = (\<lambda>_. Raises)\<rparr>"

definition responsive_controller :: "string \<Rightarrow> PlayerState \<Rightarrow> PlayerController" where
  "responsive_controller pid st =
     \<lparr>player_id = pid,
      get_player_info = Returns (Some \<lparr>pl_player_id = Some pid, pl_state = StateEnum st\<rparr>),
      position = Some 50,
      current_song = Some (Some 200), isActive = Returns (st = PLAYING),
      isConnected = Returns True,
      respond = (\<lambda>_. Returns True)\<rparr>"

text \<open>
  An engine in the middle of playback: the backend \<open>b\<close> is registered, active and playing,
  a song of 200 seconds was announced at clock reading 0, and auto progress is set to one
  second.
\<close>

definition extrapolating_engine :: AudioController where
  "extrapolating_engine =
     set_auto_progress 1
       (fst (on_song_change 0 (Some (Some 200))
         (snd (register_controller (responsive_controller ''b'' PLAYING) AudioController_init))))"

section \<open>Registry invariants\<close>

lemma controller_ids_dict_pop:
  "map fst (dict_pop k d) = filter (\<lambda>x. x \<noteq> k) (map fst d)"
  by (induction d) (auto simp: dict_pop_def)

lemma distinct_register:
  "distinct (controller_ids s) \<Longrightarrow> distinct (controller_ids (snd (register_controller c s)))"
  by (auto simp: register_controller_def controller_ids_def Let_def)

lemma controllers_unregister:
  "controllers (snd (unregister_controller pid s)) =
     (if pid \<in> set (controller_ids s) then dict_pop pid (controllers s) else controllers s)"
proof (cases "dict_pop pid (controllers s)")
  case Nil
  then show ?thesis by (simp add: unregister_controller_def Let_def)
next
  case (Cons kv rest)
  then show ?thesis by (cases kv) (simp add: unregister_controller_def Let_def)
qed

lemma controller_ids_unregister:
  "controller_ids (snd (unregister_controller pid s)) =
     (if pid \<in> set (controller_ids s) then filter (\<lambda>x. x \<noteq> pid) (controller_ids s)
      else controller_ids s)"
  by (simp add: controller_ids_def controllers_unregister controller_ids_dict_pop)

lemma distinct_unregister:
  "distinct (controller_ids s) \<Longrightarrow> distinct (controller_ids (snd (unregister_controller pid s)))"
  by (simp add: controller_ids_unregister)

lemma active_registered_register:
  "active_registered s \<Longrightarrow> active_registered (snd (register_controller c s))"
  by (auto simp: register_controller_def active_registered_def controller_ids_def Let_def
      split: option.splits)

lemma active_registered_unregister:
  "active_registered s \<Longrightarrow> active_registered (snd (unregister_controller pid s))"
proof (cases "pid \<in> set (controller_ids s)")
  case False
  assume "active_registered s"
  with False show ?thesis by (simp add: unregister_controller_def)
next
  case True
  assume ok: "active_registered s"
  show ?thesis
  proof (cases "active_controller_id s = Some pid")
    case act: True
    show ?thesis
    proof (cases "dict_pop pid (controllers s)")
      case Nil
      with True act show ?thesis
        by (simp add: unregister_controller_def active_registered_def Let_def)
    next
      case (Cons kv rest)
      with True act show ?thesis
        by (cases kv)
          (simp add: unregister_controller_def active_registered_def Let_def controller_ids_def)
    qed
  next
    case False
    with True ok show ?thesis
      by (auto simp: unregister_controller_def active_registered_def Let_def controller_ids_def
          controller_ids_dict_pop split: option.splits)
  qed
qed

lemma registry_step_invariant:
  "distinct (controller_ids s) \<and> active_registered s \<Longrightarrow>
   distinct (controller_ids (registry_step s call)) \<and> active_registered (registry_step s call)"
  by (cases call)
    (simp_all add: distinct_register distinct_unregister active_registered_register
      active_registered_unregister)

lemma run_registry_invariant:
  "distinct (controller_ids s) \<and> active_registered s \<Longrightarrow>
   distinct (controller_ids (run_registry calls s)) \<and> active_registered (run_registry calls s)"
  unfolding run_registry_def
proof (induction calls arbitrary: s)
  case Nil
  then show ?case by simp
next
  case (Cons call calls)
  from Cons.prems have "distinct (controller_ids (registry_step s call))
      \<and> active_registered (registry_step s call)"
    by (rule registry_step_invariant)
  then show ?case using Cons.IH by simp
qed

lemma init_invariant:
  "distinct (controller_ids AudioController_init) \<and> active_registered AudioController_init"
  by (simp add: AudioController_init_def controller_ids_def active_registered_def)

lemma filter_Some_le_one:
  "distinct xs \<Longrightarrow> length (filter (\<lambda>k. a = Some k) xs) \<le> 1"
  by (induction xs) (auto simp: filter_empty_conv)

lemma active_entries_le_one:
  "distinct (controller_ids s) \<Longrightarrow> length (active_entries s) \<le> 1"
  unfolding active_entries_def by (rule filter_Some_le_one)

text \<open>
  C1. Starting from a fresh \<^verbatim>\<open>AudioController\<close>, after every sequence of
  \<^verbatim>\<open>register_controller\<close> and \<^verbatim>\<open>unregister_controller\<close> calls at most one registry
  entry is marked active, and the active id, when there is one, is a key of the registry.
  Every prefix of a sequence is a sequence, so this holds at every point of a run.
\<close>

theorem registry_at_most_one_active:
  "length (active_entries (run_registry calls AudioController_init)) \<le> 1
   \<and> active_registered (run_registry calls AudioController_init)"
proof -
  have inv: "distinct (controller_ids (run_registry calls AudioController_init))
      \<and> active_registered (run_registry calls AudioController_init)"
    by (rule run_registry_invariant [OF init_invariant])
  then have "length (active_entries (run_registry calls AudioController_init)) \<le> 1"
    using active_entries_le_one by blast
  with inv show ?thesis by blast
qed


theorem registry_at_most_one_active_witness:
  "active_entries (run_registry
       [Register (NullPlayerController ''a''), Register (responsive_controller ''b'' PLAYING),
        Register (NullPlayerController ''a''), Unregister ''a'', Unregister ''c'']
       AudioController_init) = [''b'']
   \<and> active_registered (run_registry
       [Register (NullPlayerController ''a''), Register (responsive_controller ''b'' PLAYING),
        Register (NullPlayerController ''a''), Unregister ''a'', Unregister ''c'']
       AudioController_init)"
proof -
  let ?calls = "[Register (NullPlayerController ''a''),
        Register (responsive_controller ''b'' PLAYING),
        Register (NullPlayerController ''a''), Unregister ''a'', Unregister ''c'']"
  have "active_entries (run_registry ?calls AudioController_init) = [''b'']"
    by (simp add: run_registry_def register_controller_def unregister_controller_def
        AudioController_init_def controller_ids_def active_entries_def dict_pop_def
        NullPlayerController_def responsive_controller_def Let_def)
  with registry_at_most_one_active [of ?calls] show ?thesis by blast
qed

lemma filter_neq_remove1:
  "distinct xs \<Longrightarrow> filter (\<lambda>x. x \<noteq> k) xs = remove1 k xs"
  by (induction xs) (auto simp: remove1_idem)

lemma active_unregister_active:
  "pid \<in> set (controller_ids s) \<Longrightarrow> active_controller_id s = Some pid \<Longrightarrow>
   active_controller_id (snd (unregister_controller pid s)) =
     (case dict_pop pid (controllers s) of [] \<Rightarrow> None | kv # _ \<Rightarrow> Some (fst kv))"
  by (simp add: unregister_controller_def Let_def split: list.splits prod.splits)

text \<open>
  C6. Unregistering the active controller while others remain makes the first of the
  remaining controllers, in registration order, the active one (the registry keeps its
  order, with the id removed); unregistering the last registered controller leaves no
  controller active; unregistering an id that is not registered returns failure and leaves
  the engine as it was.
\<close>

theorem unregister_controller_reassigns:
  "(pid \<notin> set (controller_ids s) \<longrightarrow> unregister_controller pid s = (False, s))
   \<and> (distinct (controller_ids s) \<and> pid \<in> set (controller_ids s)
        \<and> active_controller_id s = Some pid \<longrightarrow>
        fst (unregister_controller pid s)
        \<and> controller_ids (snd (unregister_controller pid s)) = remove1 pid (controller_ids s)
        \<and> (\<forall>k rest. remove1 pid (controller_ids s) = k # rest \<longrightarrow>
              active_controller_id (snd (unregister_controller pid s)) = Some k)
        \<and> (remove1 pid (controller_ids s) = [] \<longrightarrow>
              active_controller_id (snd (unregister_controller pid s)) = None))"
proof (intro conjI impI)
  assume "pid \<notin> set (controller_ids s)"
  then show "unregister_controller pid s = (False, s)"
    by (simp add: unregister_controller_def)
next
  assume a: "distinct (controller_ids s) \<and> pid \<in> set (controller_ids s)
        \<and> active_controller_id s = Some pid"
  then show "fst (unregister_controller pid s)"
    by (simp add: unregister_controller_def Let_def)
  from a have ids: "map fst (dict_pop pid (controllers s)) = remove1 pid (controller_ids s)"
    by (simp add: controller_ids_dict_pop filter_neq_remove1 controller_ids_def)
  from a show "controller_ids (snd (unregister_controller pid s)) = remove1 pid (controller_ids s)"
    by (simp add: controller_ids_unregister filter_neq_remove1)
  from a have act: "active_controller_id (snd (unregister_controller pid s)) =
     (case dict_pop pid (controllers s) of [] \<Rightarrow> None | kv # _ \<Rightarrow> Some (fst kv))"
    by (simp add: active_unregister_active)
  show "\<forall>k rest. remove1 pid (controller_ids s) = k # rest \<longrightarrow>
      active_controller_id (snd (unregister_controller pid s)) = Some k"
    using ids act by (auto split: list.splits)
  show "active_controller_id (snd (unregister_controller pid s)) = None"
    if "remove1 pid (controller_ids s) = []"
    using that ids act by (auto split: list.splits)
qed

theorem unregister_controller_reassigns_witness:
  "unregister_controller ''c'' (run_registry
       [Register (NullPlayerController ''a''), Register (NullPlayerController ''b'')]
       AudioController_init)
     = (False, run_registry
       [Register (NullPlayerController ''a''), Register (NullPlayerController ''b'')]
       AudioController_init)
   \<and> active_controller_id (run_registry
       [Register (NullPlayerController ''a''), Register (NullPlayerController ''b'')]
       AudioController_init) = Some ''a''
   \<and> active_controller_id (snd (unregister_controller ''a'' (run_registry
       [Register (NullPlayerController ''a''), Register (NullPlayerController ''b'')]
       AudioController_init))) = Some ''b''
   \<and> active_controller_id (snd (unregister_controller ''a'' (run_registry
       [Register (NullPlayerController ''a'')] AudioController_init))) = None"
proof -
  let ?ab = "run_registry
       [Register (NullPlayerController ''a''), Register (NullPlayerController ''b'')]
       AudioController_init"
  let ?a = "run_registry [Register (NullPlayerController ''a'')] AudioController_init"
  have ids_ab: "controller_ids ?ab = [''a'', ''b'']" and act_ab: "active_controller_id ?ab = Some ''a''"
    by (simp_all add: run_registry_def register_controller_def AudioController_init_def
        controller_ids_def NullPlayerController_def Let_def)
  have ids_a: "controller_ids ?a = [''a'']" and act_a: "active_controller_id ?a = Some ''a''"
    by (simp_all add: run_registry_def register_controller_def AudioController_init_def
        controller_ids_def NullPlayerController_def Let_def)
  from unregister_controller_reassigns [of "''c''" ?ab] ids_ab
  have 1: "unregister_controller ''c'' ?ab = (False, ?ab)" by simp
  from unregister_controller_reassigns [of "''a''" ?ab] ids_ab act_ab
  have 2: "active_controller_id (snd (unregister_controller ''a'' ?ab)) = Some ''b''" by simp
  from unregister_controller_reassigns [of "''a''" ?a] ids_a act_a
  have 3: "active_controller_id (snd (unregister_controller ''a'' ?a)) = None" by simp
  from 1 act_ab 2 3 show ?thesis by blast
qed


section \<open>Commands without an active controller\<close>

text \<open>
  C8. With no controller active (the \<^verbatim>\<open>active_controller\<close> property is \<^verbatim>\<open>None\<close>, as it is
  when the active id is \<^verbatim>\<open>None\<close>), each of the ten public commands (play, pause, stop, next,
  previous, set_volume, seek, set_shuffle, set_loop_mode, mute) returns \<^verbatim>\<open>False\<close>, does
  not raise, issues no call to any backend and leaves the engine's state as it was.
\<close>

theorem commands_without_active_controller:
  assumes "active_controller s = None"
  shows "play now s = (Returns False, s, [])
    \<and> pause s = (Returns False, s, [])
    \<and> stop s = (Returns False, s, [])
    \<and> next_track s = (Returns False, s, [])
    \<and> previous s = (Returns False, s, [])
    \<and> set_volume volume s = (Returns False, s, [])
    \<and> seek pos now s = (Returns False, s, [])
    \<and> set_shuffle b s = (Returns False, s, [])
    \<and> set_loop_mode mode s = (Returns False, s, [])
    \<and> mute m s = (Returns False, s, [])"
proof -
  note none = assms
  have "play now s = (Returns False, s, [])" using none by (simp add: play_def)
  moreover have "pause s = (Returns False, s, [])" using none by (simp add: pause_def)
  moreover have "stop s = (Returns False, s, [])" using none by (simp add: stop_def)
  moreover have "next_track s = (Returns False, s, [])" using none by (simp add: next_track_def)
  moreover have "previous s = (Returns False, s, [])" using none by (simp add: previous_def)
  moreover have "set_volume volume s = (Returns False, s, [])"
    using none by (simp add: set_volume_def)
  moreover have "seek pos now s = (Returns False, s, [])" using none by (simp add: seek_def)
  moreover have "set_shuffle b s = (Returns False, s, [])"
    using none by (simp add: set_shuffle_def)
  moreover have "set_loop_mode mode s = (Returns False, s, [])"
    using none by (simp add: set_loop_mode_def)
  moreover have "mute m s = (Returns False, s, [])" using none by (simp add: mute_def)
  ultimately show ?thesis by blast
qed

theorem commands_without_active_controller_witness:
  "active_controller AudioController_init = None
   \<and> play 0 AudioController_init = (Returns False, AudioController_init, [])
   \<and> stop AudioController_init = (Returns False, AudioController_init, [])
   \<and> set_volume 150 AudioController_init = (Returns False, AudioController_init, [])
   \<and> seek 10 0 AudioController_init = (Returns False, AudioController_init, [])
   \<and> set_loop_mode TRACK AudioController_init = (Returns False, AudioController_init, [])
   \<and> mute True AudioController_init = (Returns False, AudioController_init, [])"
proof -
  have h: "active_controller AudioController_init = None"
    by (simp add: AudioController_init_def active_controller_def)
  from commands_without_active_controller [OF h, of 0 150 10 True TRACK True] h
  show ?thesis by blast
qed


section \<open>Plugin lifecycle\<close>

text \<open>
  C10. \<^verbatim>\<open>enable\<close> on a plugin that is already enabled returns success and does not run
  the \<^verbatim>\<open>_enable_plugin\<close> hook: whatever the hook would do, the plugin and everything the
  hook could touch are as before. \<^verbatim>\<open>disable\<close> on a plugin that is not enabled (never
  enabled, or disabled again) returns success and does not run the \<^verbatim>\<open>_disable_plugin\<close>
  hook. So a second \<^verbatim>\<open>enable\<close> after a successful one, and a second \<^verbatim>\<open>disable\<close> after a
  successful one, change nothing.
\<close>

theorem plugin_enable_disable_idempotent:
  "(enabled p \<longrightarrow> enable enable_hook p w = (True, p, w))
   \<and> (\<not> enabled p \<longrightarrow> disable disable_hook p w = (True, p, w))
   \<and> (enable enable_hook p w = (True, p', w') \<longrightarrow>
        enable enable_hook p' w' = (True, p', w'))
   \<and> (disable disable_hook p w = (True, p', w') \<longrightarrow>
        disable disable_hook p' w' = (True, p', w'))"
proof (intro conjI impI)
  show "enable enable_hook p w = (True, p, w)" if "enabled p"
    using that by (simp add: enable_def)
  show "disable disable_hook p w = (True, p, w)" if "\<not> enabled p"
    using that by (simp add: disable_def)
  show "enable enable_hook p' w' = (True, p', w')" if "enable enable_hook p w = (True, p', w')"
  proof -
    from that have "enabled p'"
      by (auto simp: enable_def split: if_splits prod.splits outcome.splits)
    then show ?thesis by (simp add: enable_def)
  qed
  show "disable disable_hook p' w' = (True, p', w')"
    if "disable disable_hook p w = (True, p', w')"
  proof -
    from that have "\<not> enabled p'"
      by (auto simp: disable_def split: if_splits prod.splits outcome.splits)
    then show ?thesis by (simp add: disable_def)
  qed
qed

theorem plugin_enable_disable_idempotent_witness:
  "disable counting_hook \<lparr>plugin_name = ''AutoPause'', enabled = False\<rparr> 0
     = (True, \<lparr>plugin_name = ''AutoPause'', enabled = False\<rparr>, 0)
   \<and> enable counting_hook \<lparr>plugin_name = ''AutoPause'', enabled = False\<rparr> 0
     = (True, \<lparr>plugin_name = ''AutoPause'', enabled = True\<rparr>, 1)
   \<and> enable counting_hook \<lparr>plugin_name = ''AutoPause'', enabled = True\<rparr> 1
     = (True, \<lparr>plugin_name = ''AutoPause'', enabled = True\<rparr>, 1)
   \<and> disable counting_hook \<lparr>plugin_name = ''AutoPause'', enabled = True\<rparr> 1
     = (True, \<lparr>plugin_name = ''AutoPause'', enabled = False\<rparr>, 2)
   \<and> disable counting_hook \<lparr>plugin_name = ''AutoPause'', enabled = False\<rparr> 2
     = (True, \<lparr>plugin_name = ''AutoPause'', enabled = False\<rparr>, 2)"
proof -
  let ?off = "\<lparr>plugin_name = ''AutoPause'', enabled = False\<rparr>"
  let ?on = "\<lparr>plugin_name = ''AutoPause'', enabled = True\<rparr>"
  have e: "enable counting_hook ?off 0 = (True, ?on, 1)"
    by (simp add: enable_def counting_hook_def)
  have d: "disable counting_hook ?on 1 = (True, ?off, 2)"
    by (simp add: disable_def counting_hook_def)
  from plugin_enable_disable_idempotent [of ?off counting_hook 0 counting_hook ?off 0]
  have 1: "disable counting_hook ?off 0 = (True, ?off, 0)" by simp
  from plugin_enable_disable_idempotent [of ?off counting_hook 0 counting_hook ?on 1] e
  have 2: "enable counting_hook ?on 1 = (True, ?on, 1)" by simp
  from plugin_enable_disable_idempotent [of ?on counting_hook 1 counting_hook ?off 2] d
  have 3: "disable counting_hook ?off 2 = (True, ?off, 2)" by simp
  from 1 e 2 d 3 show ?thesis by blast
qed


section \<open>Automatic selection\<close>

lemma first_controller_where_none:
  "\<forall>kc \<in> set d. probe (snd kc) = Returns False \<Longrightarrow>
   first_controller_where probe d = Returns None"
proof (induction d)
  case Nil
  show ?case by simp
next
  case (Cons kc d)
  then show ?case by (cases kc) simp
qed

lemma first_controller_where_split:
  "\<forall>kc \<in> set pre. probe (snd kc) = Returns False \<Longrightarrow>
   first_controller_where probe (pre @ (pid, c) # post) =
     (case probe c of
        Raises \<Rightarrow> Raises
      | Returns answer \<Rightarrow>
          if answer then Returns (Some pid) else first_controller_where probe post)"
proof (induction pre)
  case Nil
  show ?case by simp
next
  case (Cons kc pre)
  then show ?case by (cases kc) simp
qed

text \<open>
  The selection policy, for backends whose probes return. The first controller in
  registration order whose \<^verbatim>\<open>isActive()\<close> answers true becomes active; when every
  \<^verbatim>\<open>isActive()\<close> answers false, the first whose \<^verbatim>\<open>isConnected()\<close> answers true becomes
  active; when every probe answers false the call returns failure and the engine is
  unchanged. With two registered controllers, one playing and one connected but not
  playing, the playing one is selected in either registration order. When the first probe
  that does not answer false raises, the call raises and the engine is unchanged.
\<close>

theorem auto_select_active_controller_policy:
  "(controllers s = pre @ (pid, c) # post \<and> isActive c = Returns True
      \<and> (\<forall>kc \<in> set pre. isActive (snd kc) = Returns False) \<longrightarrow>
      auto_select_active_controller s = (Returns True, s\<lparr>active_controller_id := Some pid\<rparr>))
   \<and> (controllers s = pre @ (pid, c) # post \<and> isConnected c = Returns True
      \<and> (\<forall>kc \<in> set pre. isConnected (snd kc) = Returns False)
      \<and> (\<forall>kc \<in> set (controllers s). isActive (snd kc) = Returns False) \<longrightarrow>
      auto_select_active_controller s = (Returns True, s\<lparr>active_controller_id := Some pid\<rparr>))
   \<and> ((\<forall>kc \<in> set (controllers s).
          isActive (snd kc) = Returns False \<and> isConnected (snd kc) = Returns False) \<longrightarrow>
      auto_select_active_controller s = (Returns False, s))
   \<and> (isActive playing = Returns True \<and> isActive idle = Returns False
      \<and> isConnected idle = Returns True
      \<and> (controllers s = [(p, playing), (q, idle)] \<or> controllers s = [(q, idle), (p, playing)]) \<longrightarrow>
      auto_select_active_controller s = (Returns True, s\<lparr>active_controller_id := Some p\<rparr>))
   \<and> (controllers s = pre @ (pid, c) # post \<and> isActive c = Raises
      \<and> (\<forall>kc \<in> set pre. isActive (snd kc) = Returns False) \<longrightarrow>
      auto_select_active_controller s = (Raises, s))"
proof (intro conjI impI)
  assume a: "controllers s = pre @ (pid, c) # post \<and> isActive c = Returns True
      \<and> (\<forall>kc \<in> set pre. isActive (snd kc) = Returns False)"
  then have "first_controller_where isActive (controllers s) = Returns (Some pid)"
    by (simp add: first_controller_where_split)
  then show "auto_select_active_controller s = (Returns True, s\<lparr>active_controller_id := Some pid\<rparr>)"
    by (simp add: auto_select_active_controller_def)
next
  assume a: "controllers s = pre @ (pid, c) # post \<and> isConnected c = Returns True
      \<and> (\<forall>kc \<in> set pre. isConnected (snd kc) = Returns False)
      \<and> (\<forall>kc \<in> set (controllers s). isActive (snd kc) = Returns False)"
  then have "\<forall>kc \<in> set (controllers s). isActive (snd kc) = Returns False"
    by blast
  then have "first_controller_where isActive (controllers s) = Returns None"
    by (rule first_controller_where_none)
  moreover from a have "first_controller_where isConnected (controllers s) = Returns (Some pid)"
    by (simp add: first_controller_where_split)
  ultimately show "auto_select_active_controller s = (Returns True, s\<lparr>active_controller_id := Some pid\<rparr>)"
    by (simp add: auto_select_active_controller_def)
next
  assume a: "\<forall>kc \<in> set (controllers s).
          isActive (snd kc) = Returns False \<and> isConnected (snd kc) = Returns False"
  then have "first_controller_where isActive (controllers s) = Returns None"
    and "first_controller_where isConnected (controllers s) = Returns None"
    by (simp_all add: first_controller_where_none)
  then show "auto_select_active_controller s = (Returns False, s)"
    by (simp add: auto_select_active_controller_def)
next
  assume a: "isActive playing = Returns True \<and> isActive idle = Returns False
      \<and> isConnected idle = Returns True
      \<and> (controllers s = [(p, playing), (q, idle)] \<or> controllers s = [(q, idle), (p, playing)])"
  then have "first_controller_where isActive (controllers s) = Returns (Some p)"
    by auto
  then show "auto_select_active_controller s = (Returns True, s\<lparr>active_controller_id := Some p\<rparr>)"
    by (simp add: auto_select_active_controller_def)
next
  assume a: "controllers s = pre @ (pid, c) # post \<and> isActive c = Raises
      \<and> (\<forall>kc \<in> set pre. isActive (snd kc) = Returns False)"
  then have "first_controller_where isActive (controllers s) = Raises"
    by (simp add: first_controller_where_split)
  then show "auto_select_active_controller s = (Raises, s)"
    by (simp add: auto_select_active_controller_def)
qed

theorem auto_select_active_controller_policy_witness:
  "active_controller_id (snd (auto_select_active_controller
      (AudioController_init\<lparr>controllers :=
         [(''a'', responsive_controller ''a'' PAUSED), (''b'', responsive_controller ''b'' PLAYING)]\<rparr>)))
     = Some ''b''
   \<and> active_controller_id (snd (auto_select_active_controller
      (AudioController_init\<lparr>controllers :=
         [(''b'', responsive_controller ''b'' PLAYING), (''a'', responsive_controller ''a'' PAUSED)]\<rparr>)))
     = Some ''b''
   \<and> active_controller_id (snd (auto_select_active_controller
      (AudioController_init\<lparr>controllers :=
         [(''a'', responsive_controller ''a'' PAUSED), (''c'', responsive_controller ''c'' STOPPED)]\<rparr>)))
     = Some ''a''"
proof -
  let ?a = "responsive_controller ''a'' PAUSED"
  let ?b = "responsive_controller ''b'' PLAYING"
  let ?c = "responsive_controller ''c'' STOPPED"
  let ?ab = "AudioController_init\<lparr>controllers := [(''a'', ?a), (''b'', ?b)]\<rparr>"
  let ?ba = "AudioController_init\<lparr>controllers := [(''b'', ?b), (''a'', ?a)]\<rparr>"
  let ?ac = "AudioController_init\<lparr>controllers := [(''a'', ?a), (''c'', ?c)]\<rparr>"
  have probes: "isActive ?b = Returns True" "isActive ?a = Returns False"
    "isConnected ?a = Returns True" "isActive ?c = Returns False"
    by (simp_all add: responsive_controller_def)
  from auto_select_active_controller_policy [of ?ab "[(''a'', ?a)]" "''b''" ?b "[]" ?b ?a "''b''" "''a''"]
    probes
  have 1: "active_controller_id (snd (auto_select_active_controller ?ab)) = Some ''b''"
    by simp
  from auto_select_active_controller_policy [of ?ba "[]" "''b''" ?b "[(''a'', ?a)]" ?b ?a "''b''" "''a''"]
    probes
  have 2: "active_controller_id (snd (auto_select_active_controller ?ba)) = Some ''b''"
    by simp
  from auto_select_active_controller_policy [of ?ac "[]" "''a''" ?a "[(''c'', ?c)]" ?b ?a "''b''" "''a''"]
    probes
  have 3: "active_controller_id (snd (auto_select_active_controller ?ac)) = Some ''a''"
    by simp
  from 1 2 3 show ?thesis by blast
qed

text \<open>
  C7. The claim: \<^verbatim>\<open>auto_select_active_controller\<close> makes active the first controller, in
  registration order, that reports it is playing; if none is playing, the first that
  reports it is connected; if there is neither, it returns failure. The code does so only
  while the probes return. With a connected, paused backend registered before the
  repository's own \<^verbatim>\<open>NullPlayerController\<close> (the registry that
  \<^verbatim>\<open>add_all_player_controllers\<close> builds), no controller is playing and the first one is
  connected, yet the call raises, when \<^verbatim>\<open>isActive()\<close> of the null controller raises, and
  selects nothing; with the null controller alone the call raises where the claim has it
  return failure. In both runs the engine is left as it was.
\<close>

theorem auto_select_raises_for_null_controller:
  "isConnected (responsive_controller ''mpd'' PAUSED) = Returns True
   \<and> auto_select_active_controller
       (run_registry [Register (responsive_controller ''mpd'' PAUSED),
                      Register (NullPlayerController ''null'')] AudioController_init)
     = (Raises,
        run_registry [Register (responsive_controller ''mpd'' PAUSED),
                      Register (NullPlayerController ''null'')] AudioController_init)
   \<and> auto_select_active_controller
       (run_registry [Register (NullPlayerController ''null'')] AudioController_init)
     = (Raises, run_registry [Register (NullPlayerController ''null'')] AudioController_init)"
  by (simp add: auto_select_active_controller_def run_registry_def register_controller_def
      AudioController_init_def controller_ids_def responsive_controller_def
      NullPlayerController_def Let_def)

section \<open>Volume forwarding\<close>

text \<open>
  C4, as the claim states it, fails: the engine's \<^verbatim>\<open>set_volume(150)\<close> with an active backend
  hands 150 to the backend and returns the backend's success.
\<close>

theorem set_volume_150_reaches_backend:
  "fst (set_volume 150
      (snd (register_controller (responsive_controller ''b'' PLAYING) AudioController_init)))
     = Returns True
   \<and> forwarded_volumes (snd (snd (set_volume 150
      (snd (register_controller (responsive_controller ''b'' PLAYING) AudioController_init)))))
     = [150]
   \<and> \<not> (\<forall>v \<in> set (forwarded_volumes (snd (snd (set_volume 150
      (snd (register_controller (responsive_controller ''b'' PLAYING) AudioController_init)))))).
        v \<le> 100)"
  by (simp add: set_volume_def register_controller_def AudioController_init_def
      controller_ids_def active_controller_def responsive_controller_def Let_def)

text \<open>
  C4, amended. The engine's \<^verbatim>\<open>set_volume\<close> forwards its argument unchanged to the active
  backend and returns what the backend returns. The clamp is the MPD backend's: a connected
  \<^verbatim>\<open>MPDPlayerController.set_volume\<close> sends \<^verbatim>\<open>max(0, min(100, volume))\<close> to the daemon, so
  the daemon is sent 100 for every volume above 100, and never a value outside 0..100.
\<close>

theorem set_volume_forwards_unchanged:
  "(active_controller s = Some c \<longrightarrow>
      fst (set_volume volume s) = respond c (CmdSetVolume volume)
      \<and> fst (snd (set_volume volume s)) = s
      \<and> forwarded_volumes (snd (snd (set_volume volume s))) = [volume])
   \<and> (mpd_connected m \<longrightarrow>
      fst (snd (snd (MPD_set_volume volume m))) = [max 0 (min 100 volume)]
      \<and> (\<forall>v \<in> set (fst (snd (snd (MPD_set_volume volume m)))). 0 \<le> v \<and> v \<le> 100)
      \<and> (volume > 100 \<longrightarrow> fst (snd (snd (MPD_set_volume volume m))) = [100]))"
  by (auto simp: set_volume_def MPD_set_volume_def Let_def)

theorem set_volume_forwards_unchanged_witness:
  "forwarded_volumes (snd (snd (set_volume 150
      (snd (register_controller (responsive_controller ''b'' PLAYING) AudioController_init)))))
     = [150]
   \<and> fst (snd (snd (MPD_set_volume 150
      \<lparr>mpd_connected = True, mpd_setvol_fails = False, mpd_is_muted = False\<rparr>))) = [100]"
proof -
  let ?s = "snd (register_controller (responsive_controller ''b'' PLAYING) AudioController_init)"
  let ?m = "\<lparr>mpd_connected = True, mpd_setvol_fails = False, mpd_is_muted = False\<rparr>"
  have a: "active_controller ?s = Some (responsive_controller ''b'' PLAYING)"
    by (simp add: register_controller_def AudioController_init_def controller_ids_def
        active_controller_def responsive_controller_def Let_def)
  have m: "mpd_connected ?m" by simp
  from set_volume_forwards_unchanged [of ?s "responsive_controller ''b'' PLAYING" 150 ?m] a m
  show ?thesis by simp
qed

section \<open>Plugin subscriptions and event dispatch\<close>

lemma notify_listeners_add_listener:
  "notify_listeners e (add_listener k cb s) =
     (if k = EventKey e then insert cb (notify_listeners e s) else notify_listeners e s)"
  by (auto simp: notify_listeners_def add_listener_def image_iff)

lemma notify_listeners_add_StrKey:
  "notify_listeners e (add_listener (StrKey k) cb s) = notify_listeners e s"
  by (simp add: notify_listeners_add_listener)

lemma notify_listeners_init: "notify_listeners e AudioController_init = {}"
  by (simp add: notify_listeners_def AudioController_init_def)

text \<open>
  C5. Enabling the AutoPause or the VolumeNormalization plugin subscribes its callback
  under a string key (\<^verbatim>\<open>'player_state_change'\<close>, \<^verbatim>\<open>'song_change'\<close>). The dispatch of any
  \<^verbatim>\<open>EventType\<close> member calls exactly the callbacks it called before the plugin was
  enabled, since a string key never equals an \<^verbatim>\<open>EventType\<close> member: the subscription the
  plugin made is never invoked. On a fresh engine, with both plugins enabled, no event
  invokes anything.
\<close>

theorem plugin_callbacks_never_dispatched:
  "(enable AutoPause_enable_plugin p (Some s) = (r, p', Some s') \<longrightarrow>
      notify_listeners e s' = notify_listeners e s)
   \<and> (enable VolumeNormalization_enable_plugin p (Some s) = (r, p', Some s') \<longrightarrow>
      notify_listeners e s' = notify_listeners e s)
   \<and> (\<not> enabled p \<longrightarrow>
      enable AutoPause_enable_plugin p (Some s) =
        (True, p\<lparr>enabled := True\<rparr>,
         Some (add_listener (StrKey ''player_state_change'') AutoPause_callback s))
      \<and> enable VolumeNormalization_enable_plugin p (Some s) =
        (True, p\<lparr>enabled := True\<rparr>,
         Some (add_listener (StrKey ''song_change'') VolumeNormalization_callback s)))
   \<and> (StrKey ''player_state_change'', AutoPause_callback)
        \<in> listeners (add_listener (StrKey ''player_state_change'') AutoPause_callback s)
   \<and> notify_listeners e
        (add_listener (StrKey ''song_change'') VolumeNormalization_callback
          (add_listener (StrKey ''player_state_change'') AutoPause_callback
             AudioController_init)) = {}"
proof (intro conjI impI)
  assume "enable AutoPause_enable_plugin p (Some s) = (r, p', Some s')"
  then have "s' = s \<or> s' = add_listener (StrKey ''player_state_change'') AutoPause_callback s"
    by (auto simp: enable_def AutoPause_enable_plugin_def split: if_splits)
  then show "notify_listeners e s' = notify_listeners e s"
    by (auto simp: notify_listeners_add_StrKey)
next
  assume "enable VolumeNormalization_enable_plugin p (Some s) = (r, p', Some s')"
  then have "s' = s \<or> s' = add_listener (StrKey ''song_change'') VolumeNormalization_callback s"
    by (auto simp: enable_def VolumeNormalization_enable_plugin_def split: if_splits)
  then show "notify_listeners e s' = notify_listeners e s"
    by (auto simp: notify_listeners_add_StrKey)
next
  assume "\<not> enabled p"
  then show "enable AutoPause_enable_plugin p (Some s) =
        (True, p\<lparr>enabled := True\<rparr>,
         Some (add_listener (StrKey ''player_state_change'') AutoPause_callback s))"
    by (simp add: enable_def AutoPause_enable_plugin_def)
next
  assume "\<not> enabled p"
  then show "enable VolumeNormalization_enable_plugin p (Some s) =
        (True, p\<lparr>enabled := True\<rparr>,
         Some (add_listener (StrKey ''song_change'') VolumeNormalization_callback s))"
    by (simp add: enable_def VolumeNormalization_enable_plugin_def)
next
  show "(StrKey ''player_state_change'', AutoPause_callback)
        \<in> listeners (add_listener (StrKey ''player_state_change'') AutoPause_callback s)"
    by (simp add: add_listener_def)
next
  show "notify_listeners e
        (add_listener (StrKey ''song_change'') VolumeNormalization_callback
          (add_listener (StrKey ''player_state_change'') AutoPause_callback
             AudioController_init)) = {}"
    by (simp add: notify_listeners_add_StrKey notify_listeners_init)
qed

theorem plugin_callbacks_never_dispatched_witness:
  "fst (enable AutoPause_enable_plugin \<lparr>plugin_name = ''AutoPause'', enabled = False\<rparr>
      (Some (add_listener (EventKey PLAYER_STATE_CHANGE) ''TextUI._on_player_state_change''
         AudioController_init)))
   \<and> notify_listeners PLAYER_STATE_CHANGE
      (add_listener (StrKey ''player_state_change'') AutoPause_callback
        (add_listener (EventKey PLAYER_STATE_CHANGE) ''TextUI._on_player_state_change''
           AudioController_init))
     = {''TextUI._on_player_state_change''}"
proof -
  let ?p = "\<lparr>plugin_name = ''AutoPause'', enabled = False\<rparr>"
  let ?s = "add_listener (EventKey PLAYER_STATE_CHANGE) ''TextUI._on_player_state_change''
         AudioController_init"
  let ?s' = "add_listener (StrKey ''player_state_change'') AutoPause_callback ?s"
  have before: "notify_listeners PLAYER_STATE_CHANGE ?s = {''TextUI._on_player_state_change''}"
    by (simp add: notify_listeners_add_listener notify_listeners_init)
  have off: "\<not> enabled ?p" by simp
  from plugin_callbacks_never_dispatched
    [of ?p ?s True "?p\<lparr>enabled := True\<rparr>" ?s' PLAYER_STATE_CHANGE] off
  have en: "enable AutoPause_enable_plugin ?p (Some ?s) = (True, ?p\<lparr>enabled := True\<rparr>, Some ?s')"
    and same: "notify_listeners PLAYER_STATE_CHANGE ?s' = notify_listeners PLAYER_STATE_CHANGE ?s"
    by simp_all
  from en have "fst (enable AutoPause_enable_plugin ?p (Some ?s))" by simp
  with same before show ?thesis by simp
qed


section \<open>Promotion of a backend that starts playing\<close>

lemma pause_others_loop_all:
  "pause_others_loop (Some pid) d =
     map (\<lambda>k. (k, CmdPause)) (filter (\<lambda>k. k \<noteq> pid) (map fst d))"
proof (induction d)
  case Nil
  show ?case by simp
next
  case (Cons kc d)
  then show ?case by (cases kc) (simp split: outcome.splits)
qed

text \<open>
  C2, as the claim states it, fails: with a stopped controller \<open>a\<close> active and a second
  controller \<open>b\<close> reporting PLAYING, the engine issues \<^verbatim>\<open>pause\<close> to \<open>a\<close>, although no other
  controller is playing.
\<close>

theorem promotion_pauses_stopped_controller:
  "map fst (fst (snd (on_player_state_change 0
       \<lparr>pl_player_id = Some ''b'', pl_state = StateEnum PLAYING\<rparr>
       (run_registry [Register (responsive_controller ''a'' STOPPED),
                      Register (responsive_controller ''b'' PLAYING)] AudioController_init))))
     = [''a'']
   \<and> other_playing_controllers ''b''
       (run_registry [Register (responsive_controller ''a'' STOPPED),
                      Register (responsive_controller ''b'' PLAYING)] AudioController_init)
     = []"
  by (simp add: on_player_state_change_def run_registry_def register_controller_def
      AudioController_init_def controller_ids_def responsive_controller_def Let_def
      pause_other_controllers_def other_playing_controllers_def reports_playing_def
      info_playing_def get_position_def active_controller_def)

text \<open>
  C2, amended. When a registered controller that is not the active one reports state
  PLAYING, the engine makes it the active controller and, with auto-pause enabled (the
  default), issues \<^verbatim>\<open>pause\<close> to every other registered controller, in registration order
  and whatever its state; whether a \<^verbatim>\<open>pause\<close> call returns or raises (the theorem holds
  for every behaviour of the backends), the remaining controllers are still paused. With
  auto-pause disabled no \<^verbatim>\<open>pause\<close> is issued.
\<close>

theorem promotion_pauses_all_others:
  assumes "pl_state player = StateEnum PLAYING"
    and "pl_player_id player = Some pid"
    and "pid \<in> set (controller_ids s)"
    and "active_controller_id s \<noteq> Some pid"
  shows "active_controller_id (fst (on_player_state_change now player s)) = Some pid
    \<and> fst (snd (on_player_state_change now player s)) =
        (if auto_pause s
         then map (\<lambda>k. (k, CmdPause)) (filter (\<lambda>k. k \<noteq> pid) (controller_ids s))
         else [])"
proof -
  let ?s1 = "s\<lparr>active_controller_id := Some pid\<rparr>"
  have calls: "pause_other_controllers ?s1 =
      map (\<lambda>k. (k, CmdPause)) (filter (\<lambda>k. k \<noteq> pid) (controller_ids s))"
    by (simp add: pause_other_controllers_def pause_others_loop_all controller_ids_def)
  have "active_controller_id (fst (on_player_state_change now player s)) = Some pid"
    using assms
    by (simp add: on_player_state_change_def Let_def split: outcome.splits option.splits)
  moreover have "fst (snd (on_player_state_change now player s)) =
      (if auto_pause s then pause_other_controllers ?s1 else [])"
    using assms
    by (simp add: on_player_state_change_def Let_def split: outcome.splits option.splits)
  ultimately show ?thesis using calls by simp
qed

theorem promotion_pauses_all_others_witness:
  "active_controller_id (fst (on_player_state_change 0
       \<lparr>pl_player_id = Some ''b'', pl_state = StateEnum PLAYING\<rparr>
       (run_registry [Register (faulty_controller ''f''),
                      Register (responsive_controller ''b'' PLAYING),
                      Register (NullPlayerController ''n'')] AudioController_init)))
     = Some ''b''
   \<and> fst (snd (on_player_state_change 0
       \<lparr>pl_player_id = Some ''b'', pl_state = StateEnum PLAYING\<rparr>
       (run_registry [Register (faulty_controller ''f''),
                      Register (responsive_controller ''b'' PLAYING),
                      Register (NullPlayerController ''n'')] AudioController_init)))
     = [(''f'', CmdPause), (''n'', CmdPause)]"
proof -
  let ?s = "run_registry [Register (faulty_controller ''f''),
                      Register (responsive_controller ''b'' PLAYING),
                      Register (NullPlayerController ''n'')] AudioController_init"
  let ?ev = "\<lparr>pl_player_id = Some ''b'', pl_state = StateEnum PLAYING\<rparr>"
  have ids: "controller_ids ?s = [''f'', ''b'', ''n'']"
    and act: "active_controller_id ?s = Some ''f''"
    and ap: "auto_pause ?s"
    by (simp_all add: run_registry_def register_controller_def AudioController_init_def
        controller_ids_def responsive_controller_def NullPlayerController_def
        faulty_controller_def Let_def)
  have 1: "pl_state ?ev = StateEnum PLAYING" and 2: "pl_player_id ?ev = Some ''b''"
    by simp_all
  have 3: "''b'' \<in> set (controller_ids ?s)" using ids by simp
  have 4: "active_controller_id ?s \<noteq> Some ''b''" using act by simp
  from promotion_pauses_all_others [OF 1 2 3 4, of 0] ids ap
  show ?thesis by simp
qed


section \<open>Position extrapolation over time\<close>

lemma clamp_to_duration_mono:
  "x \<le> y \<Longrightarrow> clamp_to_duration d x \<le> clamp_to_duration d y"
  by (auto simp: clamp_to_duration_def split: option.splits)

lemma clamp_to_duration_le:
  "clamp_to_duration (Some d) x \<le> d"
  by (simp add: clamp_to_duration_def)

lemma clamp_to_duration_shift:
  "0 \<le> e \<Longrightarrow> clamp_to_duration d (clamp_to_duration d x + e) = clamp_to_duration d (x + e)"
  by (auto simp: clamp_to_duration_def split: option.splits)

lemma extrapolate_restart:
  "t0 \<le> now \<Longrightarrow> now \<le> t \<Longrightarrow>
   extrapolate d (extrapolate d p t0 now) now t = extrapolate d p t0 t"
proof -
  assume "t0 \<le> now" and "now \<le> t"
  then have "0 \<le> t - now" by simp
  then have "clamp_to_duration d (clamp_to_duration d (p + (now - t0)) + (t - now))
      = clamp_to_duration d (p + (now - t0) + (t - now))"
    by (rule clamp_to_duration_shift)
  then show ?thesis by (simp add: extrapolate_def)
qed

lemma reports_playing_returns:
  "reports_playing c \<Longrightarrow> get_player_info c \<noteq> Raises"
  by (auto simp: reports_playing_def)

lemma get_position_extrapolates:
  "auto_progress s > 0 \<Longrightarrow> last_known_position s = Some p \<Longrightarrow>
   last_position_update_time s = Some t0 \<Longrightarrow> active_controller s = Some c \<Longrightarrow>
   reports_playing c \<Longrightarrow>
   get_position now s = Returns (Some (extrapolate (current_song_duration s) p t0 now))"
  by (simp add: get_position_def extrapolate_def reports_playing_def split: outcome.splits)

lemma worker_step_extrapolates:
  "auto_progress s > 0 \<Longrightarrow> last_known_position s = Some p \<Longrightarrow>
   last_position_update_time s = Some t0 \<Longrightarrow> active_controller s = Some c \<Longrightarrow>
   reports_playing c \<Longrightarrow>
   auto_progress_worker_step now is_playing s =
     (if now - t0 \<ge> auto_progress s then
        (\<not> (case current_song_duration s of None \<Rightarrow> False | Some d \<Rightarrow> p + (now - t0) \<ge> d),
         s\<lparr>last_known_position := Some (extrapolate (current_song_duration s) p t0 now),
           last_position_update_time := Some now\<rparr>,
         Some (extrapolate (current_song_duration s) p t0 now))
      else (True, s, None))"
  by (simp add: auto_progress_worker_step_def extrapolate_def Let_def reports_playing_returns)

lemma active_controller_extrapolation_update:
  "active_controller (s\<lparr>last_known_position := a, last_position_update_time := b\<rparr>)
     = active_controller s"
  by (simp add: active_controller_def split: option.splits)

lemma observe_values:
  "auto_progress s > 0 \<Longrightarrow> last_known_position s = Some p \<Longrightarrow>
   last_position_update_time s = Some t0 \<Longrightarrow> active_controller s = Some c \<Longrightarrow>
   reports_playing c \<Longrightarrow> sorted (t0 # map fst obs) \<Longrightarrow>
   \<exists>ts. observe obs is_playing s = map (extrapolate (current_song_duration s) p t0) ts
        \<and> sorted ts \<and> set ts \<subseteq> set (map fst obs)"
proof (induction obs arbitrary: s p t0 is_playing)
  case Nil
  show ?case by simp
next
  case (Cons ob obs)
  obtain now kind where ob: "ob = (now, kind)" by (cases ob)
  from Cons.prems(6) ob have t0_now: "t0 \<le> now" and later: "\<forall>t \<in> set (map fst obs). now \<le> t"
    and srt: "sorted (map fst obs)"
    by auto
  then have srt_t0: "sorted (t0 # map fst obs)" and srt_now: "sorted (now # map fst obs)"
    by auto
  let ?d = "current_song_duration s"
  show ?case
  proof (cases kind)
    case GetPosition
    from Cons.IH [OF Cons.prems(1-5) srt_t0, of is_playing]
    obtain ts where ts: "observe obs is_playing s = map (extrapolate ?d p t0) ts"
      "sorted ts" "set ts \<subseteq> set (map fst obs)" by blast
    have "observe (ob # obs) is_playing s = map (extrapolate ?d p t0) (now # ts)"
      using ob GetPosition ts(1) get_position_extrapolates [OF Cons.prems(1-5), of now]
      by simp
    moreover have "sorted (now # ts)" using ts(2,3) later by auto
    moreover have "set (now # ts) \<subseteq> set (map fst (ob # obs))" using ts(3) ob by auto
    ultimately show ?thesis by blast
  next
    case WorkerStep
    note step = worker_step_extrapolates [OF Cons.prems(1-5), of now is_playing]
    show ?thesis
    proof (cases "now - t0 \<ge> auto_progress s")
      case False
      from Cons.IH [OF Cons.prems(1-5) srt_t0, of True]
      obtain ts where ts: "observe obs True s = map (extrapolate ?d p t0) ts"
        "sorted ts" "set ts \<subseteq> set (map fst obs)" by blast
      have "observe (ob # obs) is_playing s = map (extrapolate ?d p t0) ts"
        using ob WorkerStep step False ts(1) by simp
      moreover have "set ts \<subseteq> set (map fst (ob # obs))" using ts(3) by auto
      ultimately show ?thesis using ts(2) by blast
    next
      case True
      let ?p' = "extrapolate ?d p t0 now"
      let ?s' = "s\<lparr>last_known_position := Some ?p', last_position_update_time := Some now\<rparr>"
      let ?f = "\<not> (case ?d of None \<Rightarrow> False | Some d \<Rightarrow> p + (now - t0) \<ge> d)"
      have a1: "auto_progress ?s' > 0" using Cons.prems(1) by simp
      have a2: "last_known_position ?s' = Some ?p'" by simp
      have a3: "last_position_update_time ?s' = Some now" by simp
      have a4: "active_controller ?s' = Some c"
        using Cons.prems(4) by (simp add: active_controller_extrapolation_update)
      from Cons.IH [OF a1 a2 a3 a4 Cons.prems(5) srt_now, of ?f]
      obtain ts where ts: "observe obs ?f ?s' = map (extrapolate ?d ?p' now) ts"
        "sorted ts" "set ts \<subseteq> set (map fst obs)" by auto
      have "map (extrapolate ?d ?p' now) ts = map (extrapolate ?d p t0) ts"
      proof (rule map_cong [OF refl])
        fix t assume "t \<in> set ts"
        with ts(3) later have "now \<le> t" by auto
        with t0_now show "extrapolate ?d ?p' now t = extrapolate ?d p t0 t"
          by (rule extrapolate_restart)
      qed
      with ts(1) have "observe obs ?f ?s' = map (extrapolate ?d p t0) ts" by simp
      then have "observe (ob # obs) is_playing s = map (extrapolate ?d p t0) (now # ts)"
        using ob WorkerStep step True by simp
      moreover have "sorted (now # ts)" using ts(2,3) later by auto
      moreover have "set (now # ts) \<subseteq> set (map fst (ob # obs))" using ts(3) ob by auto
      ultimately show ?thesis by blast
    qed
  qed
qed

lemma observe_monotone:
  assumes "auto_progress s > 0" "last_known_position s = Some p"
    "last_position_update_time s = Some t0" "active_controller s = Some c"
    "reports_playing c" "sorted (t0 # map fst obs)"
  shows "sorted (observe obs is_playing s)
    \<and> (\<forall>x \<in> set (observe obs is_playing s). \<forall>d. current_song_duration s = Some d \<longrightarrow> x \<le> d)"
proof -
  from observe_values [OF assms, of is_playing]
  obtain ts where ts: "observe obs is_playing s = map (extrapolate (current_song_duration s) p t0) ts"
    "sorted ts" by blast
  have mono: "\<And>a b. a \<le> b \<Longrightarrow> extrapolate (current_song_duration s) p t0 a
      \<le> extrapolate (current_song_duration s) p t0 b"
    by (simp add: extrapolate_def clamp_to_duration_mono)
  have "sorted (map (extrapolate (current_song_duration s) p t0) ts)"
    using ts(2) mono by (induction ts) auto
  moreover have "\<forall>x \<in> set (map (extrapolate (current_song_duration s) p t0) ts).
      \<forall>d. current_song_duration s = Some d \<longrightarrow> x \<le> d"
    by (auto simp: extrapolate_def clamp_to_duration_le)
  ultimately show ?thesis using ts(1) by simp
qed


lemma extrapolating_engine_eq:
  "extrapolating_engine =
     \<lparr>controllers = [(''b'', responsive_controller ''b'' PLAYING)],
      active_controller_id = Some ''b'', listeners = {}, auto_pause = True,
      auto_progress = 1, last_known_position = Some 0, last_position_update_time = Some 0,
      current_song_duration = Some 200\<rparr>"
  by (simp add: extrapolating_engine_def set_auto_progress_def on_song_change_def
      register_controller_def AudioController_init_def controller_ids_def Let_def
      responsive_controller_def)

lemma extrapolating_engine_active:
  "active_controller extrapolating_engine = Some (responsive_controller ''b'' PLAYING)"
  by (simp add: extrapolating_engine_eq active_controller_def)

text \<open>
  C3, as the claim states it, fails: after a successful \<^verbatim>\<open>seek(10)\<close> at clock reading 0,
  with auto progress on and the backend playing, \<^verbatim>\<open>get_position\<close> returns 15 at reading 5;
  the backend then reports position 3 at reading 6 (a position-change event, which is not
  a pause, a stop or a song change), and \<^verbatim>\<open>get_position\<close> returns 4 at reading 7.
\<close>

theorem position_change_event_lowers_position:
  "get_position 5 (fst (snd (seek 10 0 extrapolating_engine))) = Returns (Some 15)
   \<and> get_position 7 (fst (on_position_change 6 (Some 3)
        (fst (snd (seek 10 0 extrapolating_engine))))) = Returns (Some 4)
   \<and> fst (seek 10 0 extrapolating_engine) = Returns True"
  by (simp add: extrapolating_engine_eq seek_def active_controller_def
      responsive_controller_def get_position_def on_position_change_def info_playing_def
      clamp_to_duration_def Let_def)

text \<open>
  C3, amended. After a successful \<^verbatim>\<open>seek\<close> at clock reading \<open>t0\<close> (or a successful
  \<^verbatim>\<open>play\<close> for which the backend reports a position, or from any state that holds a
  position stored at \<open>t0\<close>), with auto progress enabled and the active backend reporting
  PLAYING: over every sequence of \<^verbatim>\<open>get_position\<close> calls and worker iterations whose
  clock readings start at \<open>t0\<close> and never decrease, and with no other operation in
  between, the positions returned and the positions sent by the worker are non-decreasing,
  and none exceeds the song duration when that is known.
\<close>

theorem extrapolated_positions_monotone:
  assumes "auto_progress s > 0" and "active_controller s = Some c" and "reports_playing c"
    and "sorted (t0 # map fst obs)"
    and "(respond c (CmdSeek pos) = Returns True \<and> s' = fst (snd (seek pos t0 s)))
       \<or> (respond c CmdPlay = Returns True \<and> position c = Some pos \<and> s' = fst (snd (play t0 s)))
       \<or> (last_known_position s = Some pos \<and> last_position_update_time s = Some t0 \<and> s' = s)"
  shows "sorted (observe obs is_playing s')
    \<and> (\<forall>x \<in> set (observe obs is_playing s').
          \<forall>d. current_song_duration s' = Some d \<longrightarrow> x \<le> d)"
proof -
  have s': "s' = s\<lparr>last_known_position := Some pos, last_position_update_time := Some t0\<rparr>"
    using assms(2,5) by (auto simp: seek_def play_def)
  have 1: "auto_progress s' > 0" using assms(1) s' by simp
  have 2: "last_known_position s' = Some pos" using s' by simp
  have 3: "last_position_update_time s' = Some t0" using s' by simp
  have 4: "active_controller s' = Some c"
    using assms(2) s' by (simp add: active_controller_extrapolation_update)
  show ?thesis by (rule observe_monotone [OF 1 2 3 4 assms(3,4)])
qed

theorem extrapolated_positions_monotone_witness:
  "observe [(5, GetPosition), (6, WorkerStep), (7, GetPosition), (195, WorkerStep),
            (300, GetPosition)] False (fst (snd (seek 10 0 extrapolating_engine)))
     = [15, 16, 17, 200, 200]
   \<and> sorted (observe [(5, GetPosition), (6, WorkerStep), (7, GetPosition), (195, WorkerStep),
            (300, GetPosition)] False (fst (snd (seek 10 0 extrapolating_engine))))"
proof -
  let ?c = "responsive_controller ''b'' PLAYING"
  let ?obs = "[(5, GetPosition), (6, WorkerStep), (7, GetPosition), (195, WorkerStep),
            (300::rat, GetPosition)]"
  let ?s' = "fst (snd (seek 10 0 extrapolating_engine))"
  have 1: "auto_progress extrapolating_engine > 0" by (simp add: extrapolating_engine_eq)
  have 3: "reports_playing ?c"
    by (simp add: reports_playing_def info_playing_def responsive_controller_def)
  have 4: "sorted (0 # map fst ?obs)" by simp
  have 5: "(respond ?c (CmdSeek 10) = Returns True \<and> ?s' = fst (snd (seek 10 0 extrapolating_engine)))
       \<or> (respond ?c CmdPlay = Returns True \<and> position ?c = Some 10
           \<and> ?s' = fst (snd (play 0 extrapolating_engine)))
       \<or> (last_known_position extrapolating_engine = Some 10
           \<and> last_position_update_time extrapolating_engine = Some 0
           \<and> ?s' = extrapolating_engine)"
    by (simp add: responsive_controller_def)
  from extrapolated_positions_monotone [OF 1 extrapolating_engine_active 3 4 5, of False]
  have srt: "sorted (observe ?obs False ?s')" by blast
  have val: "observe ?obs False ?s' = [15, 16, 17, 200, 200]"
    by (simp add: extrapolating_engine_eq seek_def active_controller_def
      responsive_controller_def get_position_def auto_progress_worker_step_def
      reports_playing_def info_playing_def clamp_to_duration_def Let_def)
  from val srt show ?thesis by blast
qed


section \<open>The stored position and the song duration\<close>

text \<open>
  C9, as the claim states it, fails: with a song of 200 seconds, a successful
  \<^verbatim>\<open>seek(300)\<close> stores 300 as the last known position, and so does a position-change
  event that reports 300.
\<close>

theorem seek_stores_position_beyond_duration:
  "fst (seek 300 1 extrapolating_engine) = Returns True
   \<and> last_known_position (fst (snd (seek 300 1 extrapolating_engine))) = Some 300
   \<and> current_song_duration (fst (snd (seek 300 1 extrapolating_engine))) = Some 200
   \<and> \<not> position_within_duration (fst (snd (seek 300 1 extrapolating_engine)))
   \<and> \<not> position_within_duration (fst (on_position_change 1 (Some 300) extrapolating_engine))"
  by (simp add: extrapolating_engine_eq seek_def active_controller_def
      responsive_controller_def on_position_change_def position_within_duration_def Let_def)

text \<open>
  C9, amended. Whenever the extrapolation worker stores a position (an iteration that
  notifies the \<^verbatim>\<open>POSITION_CHANGE\<close> listeners), the stored position is the one it sends and
  does not exceed the stored song duration, when that is known. A successful \<^verbatim>\<open>seek\<close> and
  a position-change event (with a controller active) store the position they are given,
  unchanged, and leave the duration as it is.
\<close>

theorem worker_stores_position_within_duration:
  "(auto_progress_worker_step now is_playing s = (is_playing', s', Some emitted) \<longrightarrow>
      position_within_duration s' \<and> last_known_position s' = Some emitted
      \<and> current_song_duration s' = current_song_duration s)
   \<and> (active_controller s = Some c \<and> respond c (CmdSeek pos) = Returns True \<longrightarrow>
      last_known_position (fst (snd (seek pos now s))) = Some pos
      \<and> current_song_duration (fst (snd (seek pos now s))) = current_song_duration s)
   \<and> (active_controller_id s \<noteq> None \<longrightarrow>
      last_known_position (fst (on_position_change now p s)) = p
      \<and> current_song_duration (fst (on_position_change now p s)) = current_song_duration s)"
proof (intro conjI impI)
  assume "auto_progress_worker_step now is_playing s = (is_playing', s', Some emitted)"
  then obtain s1 lkp t0 where s1: "current_song_duration s1 = current_song_duration s"
    and s': "s' = s1\<lparr>last_known_position :=
                  Some (clamp_to_duration (current_song_duration s1) (lkp + (now - t0))),
                last_position_update_time := Some now\<rparr>"
    and em: "emitted = clamp_to_duration (current_song_duration s1) (lkp + (now - t0))"
    by (auto simp: auto_progress_worker_step_def Let_def
        split: if_splits option.splits prod.splits)
  from s' s1 show "current_song_duration s' = current_song_duration s" by simp
  from s' em show "last_known_position s' = Some emitted" by simp
  from s' show "position_within_duration s'"
    by (simp add: position_within_duration_def clamp_to_duration_def split: option.splits)
next
  assume a: "active_controller s = Some c \<and> respond c (CmdSeek pos) = Returns True"
  then show "last_known_position (fst (snd (seek pos now s))) = Some pos"
    by (simp add: seek_def)
  from a show "current_song_duration (fst (snd (seek pos now s))) = current_song_duration s"
    by (simp add: seek_def)
next
  assume a: "active_controller_id s \<noteq> None"
  then show "last_known_position (fst (on_position_change now p s)) = p"
    by (simp add: on_position_change_def Let_def)
  from a show "current_song_duration (fst (on_position_change now p s)) = current_song_duration s"
    by (simp add: on_position_change_def Let_def)
qed

theorem worker_stores_position_within_duration_witness:
  "auto_progress_worker_step 195 True (fst (snd (seek 10 0 extrapolating_engine)))
     = (False,
        (fst (snd (seek 10 0 extrapolating_engine)))
          \<lparr>last_known_position := Some 200, last_position_update_time := Some 195\<rparr>,
        Some 200)
   \<and> position_within_duration ((fst (snd (seek 10 0 extrapolating_engine)))
          \<lparr>last_known_position := Some 200, last_position_update_time := Some 195\<rparr>)
   \<and> last_known_position (fst (snd (seek 300 1 extrapolating_engine))) = Some 300
   \<and> last_known_position (fst (on_position_change 1 (Some 300) extrapolating_engine)) = Some 300"
proof -
  let ?c = "responsive_controller ''b'' PLAYING"
  let ?s = "fst (snd (seek 10 0 extrapolating_engine))"
  let ?s' = "?s\<lparr>last_known_position := Some 200, last_position_update_time := Some 195\<rparr>"
  have step: "auto_progress_worker_step 195 True ?s = (False, ?s', Some 200)"
    by (simp add: extrapolating_engine_eq seek_def active_controller_def
      responsive_controller_def auto_progress_worker_step_def
      reports_playing_def info_playing_def clamp_to_duration_def Let_def)
  have sk: "active_controller extrapolating_engine = Some ?c \<and> respond ?c (CmdSeek 300) = Returns True"
    by (simp add: extrapolating_engine_active) (simp add: responsive_controller_def)
  have act: "active_controller_id extrapolating_engine \<noteq> None"
    by (simp add: extrapolating_engine_eq)
  from worker_stores_position_within_duration
    [of 195 True ?s False ?s' 200 ?c 10 "Some 300"] step
  have a: "position_within_duration ?s'" by blast
  from worker_stores_position_within_duration
    [of 1 True extrapolating_engine False extrapolating_engine 0 ?c 300 "Some 300"] sk act
  have b: "last_known_position (fst (snd (seek 300 1 extrapolating_engine))) = Some 300"
    and c: "last_known_position (fst (on_position_change 1 (Some 300) extrapolating_engine)) = Some 300"
    by blast+
  from step a b c show ?thesis by blast
qed

end
